theory Spec2Isabelle
  imports Main "HOL-Library.Sublist"
begin

section \<open>Strings and arrays of the host language\<close>

text \<open>
  A string is a list of code units; only code units below 256 occur in this development.
  \<open>join sep xs\<close> is \<^verbatim>\<open>xs.join(sep)\<close>: the elements in order with \<open>sep\<close> between every two
  consecutive elements, and the empty string for the empty array.
\<close>

fun join :: "string \<Rightarrow> string list \<Rightarrow> string" where
  "join sep [] = []"
| "join sep [x] = x"
| "join sep (x # y # ys) = x @ sep @ join sep (y # ys)"

section \<open>Capability filter of the HTTP gateway\<close>

text \<open>
  A chat-completion message. \<open>tool_calls = None\<close> stands for an absent, \<^verbatim>\<open>undefined\<close> or
  \<^verbatim>\<open>null\<close> field (all of them falsy in the guard of the filter and all of them dropped by
  the JSON serialisation of the response). The fields \<^verbatim>\<open>id\<close>, \<^verbatim>\<open>type\<close>, \<^verbatim>\<open>function.name\<close> and
  \<^verbatim>\<open>function.arguments\<close> of a tool call are \<open>tc_id\<close>, \<open>tc_type\<close>, \<open>fn_name\<close> and
  \<open>fn_arguments\<close>.
\<close>

datatype content_part = TextPart string | ImageUrlPart string

datatype content = Str string | Parts "content_part list" | NoContent

record tool_call =
  tc_id :: string
  tc_type :: string
  fn_name :: string
  fn_arguments :: string

record message =
  role :: string
  content :: content
  tool_calls :: "tool_call list option"
  tool_call_id :: "string option"

definition READ_ONLY_TOOLS :: "string list" where
  "READ_ONLY_TOOLS =
     [''Read'', ''Glob'', ''Grep'', ''LS'', ''NotebookRead'', ''WebFetch'', ''WebSearch'',
      ''TodoRead'']"

definition WRITE_TOOLS :: "string list" where
  "WRITE_TOOLS =
     [''Edit'', ''MultiEdit'', ''Write'', ''NotebookEdit'', ''Bash'', ''TodoWrite'', ''Task'']"

definition isReadOnlyToolCall :: "tool_call \<Rightarrow> bool" where
  "isReadOnlyToolCall toolCall = (fn_name toolCall \<in> set READ_ONLY_TOOLS)"

definition isWriteToolCall :: "tool_call \<Rightarrow> bool" where
  "isWriteToolCall toolCall = (fn_name toolCall \<in> set WRITE_TOOLS)"

definition noteHead :: string where
  "noteHead = ''I can see you'd like me to perform write operations (''"

definition noteTail :: string where
  "noteTail = ''), but I'm running in read-only mode via HTTP. I can help you understand your codebase, analyze files, search for patterns, and answer questions, but I cannot modify files or execute commands.\<newline>\<newline>Would you like me to help you explore or analyze your code instead?''"

definition friendlyMessage :: "string \<Rightarrow> string" where
  "friendlyMessage writeOperations = noteHead @ writeOperations @ noteTail"

text \<open>
  The filter. Its declared result type admits \<^verbatim>\<open>null\<close>, but every path returns a message,
  so the model returns a message. The branch for tool results returns the item as the
  final fall-through does.
\<close>

definition filterMessageForReadOnly :: "message \<Rightarrow> message" where
  "filterMessageForReadOnly item =
     (let rewritten =
        (case tool_calls item of
           None \<Rightarrow> None
         | Some tcs \<Rightarrow>
             if role item = ''assistant'' then
               (let writeToolCalls = filter isWriteToolCall tcs;
                    readToolCalls = filter isReadOnlyToolCall tcs
                in if length writeToolCalls > 0 then
                     (let writeOperations = join '', '' (map fn_name writeToolCalls);
                          note = friendlyMessage writeOperations
                      in if length readToolCalls > 0 then
                           Some (item\<lparr>tool_calls := Some readToolCalls,
                                       content := Str ((case content item of
                                                          Str s \<Rightarrow> s @ ''\<newline>\<newline>''
                                                        | _ \<Rightarrow> '''') @ note)\<rparr>)
                         else Some (item\<lparr>tool_calls := None, content := Str note\<rparr>))
                   else None)
             else None)
      in case rewritten of
           Some m \<Rightarrow> m
         | None \<Rightarrow>
             if role item = ''tool'' \<and> tool_call_id item \<noteq> None then item else item)"

text \<open>
  The reading of "the original text with the note appended" used to test the
  specification's wording against the filter: the result starts with the original text
  and ends with the note.
\<close>

definition spec_appended :: "string \<Rightarrow> string \<Rightarrow> string \<Rightarrow> bool" where
  "spec_appended original note result = (prefix original result \<and> suffix note result)"

definition writeOnlyExample :: message where
  "writeOnlyExample =
     \<lparr>role = ''assistant'', content = Str ''Editing now.'',
      tool_calls = Some [\<lparr>tc_id = ''c1'', tc_type = ''function'', fn_name = ''Edit'',
                          fn_arguments = ''{}''\<rparr>],
      tool_call_id = None\<rparr>"

definition mixedExample :: message where
  "mixedExample =
     \<lparr>role = ''assistant'', content = Str ''Working.'',
      tool_calls = Some [\<lparr>tc_id = ''c1'', tc_type = ''function'', fn_name = ''Read'',
                          fn_arguments = ''{}''\<rparr>,
                         \<lparr>tc_id = ''c2'', tc_type = ''function'', fn_name = ''Bash'',
                          fn_arguments = ''{}''\<rparr>,
                         \<lparr>tc_id = ''c3'', tc_type = ''function'', fn_name = ''Lookup'',
                          fn_arguments = ''{}''\<rparr>,
                         \<lparr>tc_id = ''c4'', tc_type = ''function'', fn_name = ''Write'',
                          fn_arguments = ''{}''\<rparr>],
      tool_call_id = None\<rparr>"

section \<open>Provider adapter: flattening message content\<close>

text \<open>
  A message handed to the adapter has a role and a content that is a string or an array.
  An element of the array is an object with a \<^verbatim>\<open>type\<close> and an optional \<^verbatim>\<open>text\<close>; the
  callback also lets a bare string through, so the model has both. \<open>ContentOther\<close> is any
  content that is neither a string nor an array.
\<close>

datatype chat_elem = ElemString string | ElemPart string "string option"

datatype chat_content = ContentString string | ContentArray "chat_elem list" | ContentOther

record chat_message =
  cm_role :: string
  cm_content :: chat_content

text \<open>
  The callback of \<^verbatim>\<open>msg.content.map\<close>: a bare string as it is, the \<^verbatim>\<open>text\<close> of a part of
  type \<^verbatim>\<open>'text'\<close> (which may be \<^verbatim>\<open>undefined\<close>, here \<open>None\<close>), the empty string for any
  other part.
\<close>

fun elemValue :: "chat_elem \<Rightarrow> string option" where
  "elemValue (ElemString s) = Some s"
| "elemValue (ElemPart t txt) = (if t = ''text'' then txt else Some '''')"

text \<open>\<^verbatim>\<open>join\<close> on an array that may hold \<^verbatim>\<open>undefined\<close>: such an element counts as the empty string.\<close>

definition joinValues :: "string \<Rightarrow> string option list \<Rightarrow> string" where
  "joinValues sep vs = join sep (map (\<lambda>v. case v of None \<Rightarrow> '''' | Some s \<Rightarrow> s) vs)"

definition flattenContent :: "chat_content \<Rightarrow> string" where
  "flattenContent c =
     (case c of
        ContentString s \<Rightarrow> s
      | ContentArray parts \<Rightarrow> joinValues '' '' (map elemValue parts)
      | ContentOther \<Rightarrow> '''')"

record vertex_content =
  vc_role :: string
  vc_parts :: "string list"

definition toVertexContent :: "chat_message \<Rightarrow> vertex_content" where
  "toVertexContent msg =
     \<lparr>vc_role = (if cm_role msg = ''assistant'' then ''model'' else ''user''),
      vc_parts = [flattenContent (cm_content msg)]\<rparr>"

definition vertexContents :: "chat_message list \<Rightarrow> vertex_content list" where
  "vertexContents messages =
     map toVertexContent (filter (\<lambda>msg. cm_role msg \<noteq> ''system'') messages)"

text \<open>
  The flattening in the specification's words, written without the adapter's callback and
  join. A bare string and a part of type text are the text parts; a text part contributes
  its text (nothing, when it carries none) and any other part contributes nothing.
  \<open>singleSpaced\<close> puts exactly one space between every two consecutive strings. The
  specification leaves the other parts out before separating.
\<close>

fun isTextElem :: "chat_elem \<Rightarrow> bool" where
  "isTextElem (ElemString s) = True"
| "isTextElem (ElemPart t txt) = (t = ''text'')"

fun partText :: "chat_elem \<Rightarrow> string" where
  "partText (ElemString s) = s"
| "partText (ElemPart t None) = ''''"
| "partText (ElemPart t (Some s)) = (if t = ''text'' then s else '''')"

fun singleSpaced :: "string list \<Rightarrow> string" where
  "singleSpaced [] = ''''"
| "singleSpaced [x] = x"
| "singleSpaced (x # y # ys) = x @ '' '' @ singleSpaced (y # ys)"

definition spec_flatten :: "chat_elem list \<Rightarrow> string" where
  "spec_flatten parts = singleSpaced (map partText (filter isTextElem parts))"

definition imageBetweenTexts :: "chat_elem list" where
  "imageBetweenTexts =
     [ElemPart ''text'' (Some ''a''), ElemPart ''image_url'' None, ElemPart ''text'' (Some ''b'')]"

section \<open>Model availability check\<close>

definition RECOMMENDED_MODELS :: "string list" where
  "RECOMMENDED_MODELS = [''o4-mini'', ''o3'']"

text \<open>
  \<^verbatim>\<open>String.prototype.trim\<close> removes white space and line terminators from both ends; below
  code unit 256 these are tab, line feed, vertical tab, form feed, carriage return, space
  and the no-break space.
\<close>

definition isWhiteSpace :: "char \<Rightarrow> bool" where
  "isWhiteSpace c =
     (c \<in> set [CHR 0x09, CHR 0x0A, CHR 0x0B, CHR 0x0C, CHR 0x0D, CHR 0x20, CHR 0xA0])"

definition trim :: "string \<Rightarrow> string" where
  "trim s = rev (dropWhile isWhiteSpace (rev (dropWhile isWhiteSpace s)))"

text \<open>
  The outcome of racing the memoised model list against the timer of
  \<^verbatim>\<open>MODEL_LIST_TIMEOUT_MS\<close>: the list settles first (already resolved, or resolved before
  the timer; a fetch without a key or with a failed request resolves to the empty list),
  the timer settles first, or the list's promise rejects first.
\<close>

datatype race_outcome = CacheFirst "string list" | TimeoutFirst | CacheRejected

definition raceModels :: "race_outcome \<Rightarrow> unit + string list" where
  "raceModels race =
     (case race of
        CacheFirst models \<Rightarrow> Inr models
      | TimeoutFirst \<Rightarrow> Inr []
      | CacheRejected \<Rightarrow> Inl ())"

text \<open>The model id is \<open>None\<close> when it is not a string (\<^verbatim>\<open>undefined\<close> or \<^verbatim>\<open>null\<close>).\<close>

definition isModelSupported :: "string option \<Rightarrow> race_outcome \<Rightarrow> bool" where
  "isModelSupported model race =
     (case model of
        None \<Rightarrow> True
      | Some m \<Rightarrow>
          if trim m = '''' \<or> m \<in> set RECOMMENDED_MODELS then True
          else (case raceModels race of
                  Inl _ \<Rightarrow> True
                | Inr models \<Rightarrow>
                    if length models = 0 then True else trim m \<in> set models))"

section \<open>Building the input item\<close>

text \<open>
  A thrown value: an \<^verbatim>\<open>Error\<close> with its message, or any other value. The file system maps
  a path to the bytes of the file or to the message of the error the read rejects with.
  The file-type detection and the base64 encoding are parameters. The array \<^verbatim>\<open>content\<close>
  that the loop extends is \<open>contentParts\<close>.
\<close>

datatype thrown = ErrorObject string | OtherValue

type_synonym file_system = "string \<Rightarrow> string + string"

fun readImages ::
  "file_system \<Rightarrow> (string \<Rightarrow> string option) \<Rightarrow> (string \<Rightarrow> string) \<Rightarrow>
   content_part list \<Rightarrow> string list \<Rightarrow> thrown + content_part list" where
  "readImages readFile fileTypeFromBuffer toBase64 contentParts [] = Inr contentParts"
| "readImages readFile fileTypeFromBuffer toBase64 contentParts (filePath # images) =
     (case readFile filePath of
        Inl err \<Rightarrow> Inl (ErrorObject err)
      | Inr binary \<Rightarrow>
          (let kind = fileTypeFromBuffer binary;
               encoded = toBase64 binary;
               mime = (case kind of Some m \<Rightarrow> m | None \<Rightarrow> ''application/octet-stream'')
           in readImages readFile fileTypeFromBuffer toBase64
                (contentParts @ [ImageUrlPart (''data:'' @ mime @ '';base64,'' @ encoded)]) images))"

definition createInputItem ::
  "file_system \<Rightarrow> (string \<Rightarrow> string option) \<Rightarrow> (string \<Rightarrow> string) \<Rightarrow>
   string \<Rightarrow> string list \<Rightarrow> thrown + message" where
  "createInputItem readFile fileTypeFromBuffer toBase64 text images =
     (case readImages readFile fileTypeFromBuffer toBase64 [TextPart text] images of
        Inl err \<Rightarrow> Inl err
      | Inr contentParts \<Rightarrow>
          Inr \<lparr>role = ''user'', content = Parts [TextPart text], tool_calls = None,
               tool_call_id = None\<rparr>)"

definition userText :: "string \<Rightarrow> message" where
  "userText text =
     \<lparr>role = ''user'', content = Parts [TextPart text], tool_calls = None, tool_call_id = None\<rparr>"

definition noFiles :: file_system where
  "noFiles path =
     Inl (''ENOENT: no such file or directory, open '' @ [CHR 0x27] @ path @ [CHR 0x27])"

definition oneFile :: file_system where
  "oneFile path = (if path = ''a.png'' then Inr ''PNGDATA'' else noFiles path)"

section \<open>Session gateway\<close>

datatype approval_policy = SUGGEST | AUTO_EDIT | FULL_AUTO

datatype review_decision = NO_CONTINUE | YES

record app_config =
  cfg_model :: string
  cfg_instructions :: "string option"

record chat_request =
  prompt :: string
  imagePaths :: "string list option"
  approvalMode :: "string option"
  sessionId :: "string option"

record chat_response =
  resp_sessionId :: string
  resp_messages :: "message list"
  resp_status :: string
  resp_error :: "string option"

text \<open>
  Modelled from the spec: the agent class \<^verbatim>\<open>AgentLoop\<close>, which the gateway imports. An
  agent instance accepts the model, the instructions, the approval policy, the output sink
  \<^verbatim>\<open>onItem\<close> and the command confirmation at construction, and exposes \<^verbatim>\<open>run\<close>, which
  suspends until the turn completes or fails. The instance keeps what it was constructed
  with; \<open>agent_inputs\<close> stands for its conversation state, the input items of its turns so
  far. The sink the gateway passes is a closure that filters an item and pushes it onto
  the \<^verbatim>\<open>messages\<close> array of the request that constructs the agent; \<open>agent_sink\<close> is the
  address of that array. What a turn emits and whether it throws is the parameter
  \<open>env_agentTurn\<close> of the environment: from the conversation state and the input items to the
  items passed to \<^verbatim>\<open>onItem\<close>, in order, and the value thrown, if any.
\<close>

record agent =
  agent_model :: string
  agent_instructions :: string
  agent_approvalPolicy :: approval_policy
  agent_sink :: nat
  agent_confirmation :: review_decision
  agent_inputs :: "message list"

text \<open>
  The state of the server process: the registry \<^verbatim>\<open>activeSessions\<close> and the store of the
  \<^verbatim>\<open>messages\<close> arrays allocated by the requests so far, by address.
\<close>

record server_state =
  activeSessions :: "string \<rightharpoonup> agent"
  arrays :: "nat \<Rightarrow> message list"
  nextArray :: nat

text \<open>
  What a request takes from outside the gateway: the value \<^verbatim>\<open>randomUUID()\<close> returns, the
  file system and the two library functions of the input builder, and the agent's
  behaviour.
\<close>

record env =
  env_randomUUID :: string
  env_readFile :: file_system
  env_fileTypeFromBuffer :: "string \<Rightarrow> string option"
  env_toBase64 :: "string \<Rightarrow> string"
  env_agentTurn :: "message list \<Rightarrow> message list \<Rightarrow> message list \<times> thrown option"

definition readOnlyNotice :: string where
  "readOnlyNotice = ''\<newline>\<newline>IMPORTANT: You are running in READ-ONLY HTTP mode. You can only:\<newline>- Read files (Read, Glob, Grep, LS, NotebookRead)\<newline>- Search and analyze code\<newline>- Answer questions about the codebase\<newline>- Provide explanations and documentation\<newline>\<newline>You CANNOT:\<newline>- Edit or write files (Edit, MultiEdit, Write, NotebookEdit)\<newline>- Execute commands (Bash)\<newline>- Create todos (TodoWrite)\<newline>- Perform any modification operations\<newline>\<newline>If the user asks you to modify files or run commands, politely explain that you're in read-only mode and offer to help with code analysis instead.''"

definition readOnlyInstructions :: "app_config \<Rightarrow> string" where
  "readOnlyInstructions config =
     (case cfg_instructions config of Some s \<Rightarrow> s | None \<Rightarrow> '''') @ readOnlyNotice"

text \<open>\<^verbatim>\<open>chatRequest.sessionId || randomUUID()\<close>: an absent or empty id is falsy.\<close>

definition resolveSessionId :: "env \<Rightarrow> chat_request \<Rightarrow> string" where
  "resolveSessionId e chatRequest =
     (case sessionId chatRequest of
        None \<Rightarrow> env_randomUUID e
      | Some s \<Rightarrow> if s = '''' then env_randomUUID e else s)"

text \<open>
  \<^verbatim>\<open>agent.run([inputItem])\<close>: every emitted item goes through the agent's sink, which pushes
  the filtered item onto the array the sink was built over; the agent, held by reference
  in the registry, advances its conversation state.
\<close>

definition runAgent ::
  "env \<Rightarrow> string \<Rightarrow> agent \<Rightarrow> message list \<Rightarrow> server_state \<Rightarrow> thrown option \<times> server_state" where
  "runAgent e sid a inputItems st =
     (let (emitted, failure) = env_agentTurn e (agent_inputs a) inputItems;
          target = agent_sink a
      in (failure,
          st\<lparr>arrays := (arrays st)
                 (target := arrays st target @ map filterMessageForReadOnly emitted),
             activeSessions := (activeSessions st)
                 (sid \<mapsto> a\<lparr>agent_inputs := agent_inputs a @ inputItems\<rparr>)\<rparr>))"

text \<open>
  The handler of \<^verbatim>\<open>POST /chat\<close>, from the parsed request to the response body. The local
  array \<^verbatim>\<open>messages\<close> is a fresh address of the store; the \<^verbatim>\<open>try\<close> block is the part from
  the registry lookup to the end of the agent's turn, and a value thrown there sets
  \<^verbatim>\<open>hasError\<close> and \<^verbatim>\<open>errorMessage\<close>.
\<close>

definition handleChatRequest ::
  "env \<Rightarrow> app_config \<Rightarrow> chat_request \<Rightarrow> server_state \<Rightarrow> chat_response \<times> server_state" where
  "handleChatRequest e config chatRequest st =
     (let sid = resolveSessionId e chatRequest;
          approvalPolicy = SUGGEST;
          messages = nextArray st;
          st1 = st\<lparr>arrays := (arrays st)(messages := []), nextArray := Suc messages\<rparr>;
          (a, st2) =
            (case activeSessions st1 sid of
               Some existing \<Rightarrow> (existing, st1)
             | None \<Rightarrow>
                 (let created =
                        \<lparr>agent_model = cfg_model config,
                         agent_instructions = readOnlyInstructions config,
                         agent_approvalPolicy = approvalPolicy,
                         agent_sink = messages,
                         agent_confirmation = NO_CONTINUE,
                         agent_inputs = []\<rparr>
                  in (created,
                      st1\<lparr>activeSessions := (activeSessions st1)(sid \<mapsto> created)\<rparr>)));
          (failure, st3) =
            (case createInputItem (env_readFile e) (env_fileTypeFromBuffer e) (env_toBase64 e)
                    (prompt chatRequest)
                    (case imagePaths chatRequest of Some ps \<Rightarrow> ps | None \<Rightarrow> []) of
               Inl err \<Rightarrow> (Some err, st2)
             | Inr inputItem \<Rightarrow> runAgent e sid a [inputItem] st2);
          hasError = (failure \<noteq> None);
          errorMessage =
            (case failure of
               Some (ErrorObject msg) \<Rightarrow> msg
             | Some OtherValue \<Rightarrow> ''Unknown error''
             | None \<Rightarrow> '''')
      in (\<lparr>resp_sessionId = sid,
           resp_messages = arrays st3 messages,
           resp_status = (if hasError then ''error'' else ''completed''),
           resp_error = (if hasError then Some errorMessage else None)\<rparr>,
          st3))"

definition emptyServer :: server_state where
  "emptyServer = \<lparr>activeSessions = Map.empty, arrays = (\<lambda>_. []), nextArray = 0\<rparr>"

definition exampleConfig :: app_config where
  "exampleConfig = \<lparr>cfg_model = ''o4-mini'', cfg_instructions = None\<rparr>"

definition greeting :: message where
  "greeting = \<lparr>role = ''assistant'', content = Str ''Hello.'', tool_calls = None,
               tool_call_id = None\<rparr>"

text \<open>
  An environment whose agent answers its first turn with a greeting and, on any later
  turn, emits one assistant message and then throws an error with the message "boom".
\<close>

definition exampleEnv :: env where
  "exampleEnv =
     \<lparr>env_randomUUID = ''uuid-1'', env_readFile = noFiles,
      env_fileTypeFromBuffer = (\<lambda>_. None), env_toBase64 = (\<lambda>b. b),
      env_agentTurn = (\<lambda>inputs items.
        if inputs = [] then ([greeting], None)
        else ([mixedExample], Some (ErrorObject ''boom'')))\<rparr>"

definition requestWithId :: "string \<Rightarrow> chat_request" where
  "requestWithId sid =
     \<lparr>prompt = ''hi'', imagePaths = None, approvalMode = None, sessionId = Some sid\<rparr>"

section \<open>Stream adapter of the provider client\<close>

text \<open>
  The adapter owns an object-mode readable stream whose \<^verbatim>\<open>read\<close> does nothing; chunks reach
  it by \<^verbatim>\<open>push\<close> alone. Of the stream the model keeps the buffer of pushed chunks not yet
  consumed, whether the end has been signalled (\<^verbatim>\<open>push(null)\<close>), the error held for the
  consumer, and whether the stream is destroyed. Of the consumer's iteration it keeps
  whether its listeners are attached (they are from its first step on, until it finishes)
  and whether it has finished, by returning or by throwing. \<open>unhandled\<close> collects the
  errors raised while nothing listens for them: they surface outside the stream. The pump
  adds its position in the upstream iteration and whether its loop is still running.

  \<^verbatim>\<open>push\<close> follows the platform's readable stream: a chunk pushed before the end signal
  is appended to the buffer; a chunk pushed after it destroys the stream with the error
  "stream.push() after EOF" (unless it is destroyed already); the end signal leaves the
  buffer as it is.
\<close>

record 'c adapter =
  rs_buffer :: "'c list"
  rs_ended :: bool
  rs_error :: "string option"
  rs_destroyed :: bool
  it_listening :: bool
  it_finished :: bool
  unhandled :: "string list"
  pump_index :: nat
  pump_running :: bool

definition push :: "'c option \<Rightarrow> 'c adapter \<Rightarrow> 'c adapter" where
  "push chunk s =
     (case chunk of
        None \<Rightarrow> s\<lparr>rs_ended := True\<rparr>
      | Some c \<Rightarrow>
          if rs_ended s then
            (if rs_destroyed s then s
             else s\<lparr>rs_error := Some ''stream.push() after EOF'', rs_destroyed := True,
                    unhandled := (if it_listening s \<and> \<not> it_finished s then unhandled s
                                  else unhandled s @ [''stream.push() after EOF''])\<rparr>)
          else if rs_destroyed s then s
          else s\<lparr>rs_buffer := rs_buffer s @ [c]\<rparr>)"

text \<open>
  \<^verbatim>\<open>readable.emit('error', error)\<close> in the pump's handler. The event reaches the consumer
  through the listener of its iteration, which takes the first error only. With no
  listener attached the call throws inside the pump: the stream is left as it is, neither
  failed nor ended, and the consumer is not told.
\<close>

definition emitError :: "string \<Rightarrow> 'c adapter \<Rightarrow> 'c adapter" where
  "emitError err s =
     (if it_listening s \<and> \<not> it_finished s then
        (if rs_error s = None then s\<lparr>rs_error := Some err\<rparr> else s)
      else s\<lparr>unhandled := unhandled s @ [err]\<rparr>)"

text \<open>
  What happens next: the upstream iteration yields a chunk, ends or throws (each resumes
  the pump, if its loop is running), the cancellation handle is invoked, or the consumer
  asks for the next chunk.
\<close>

datatype 'v event = UpstreamChunk 'v | UpstreamDone | UpstreamThrows string | Abort | ConsumerNext

datatype 'c observed = Chunk 'c | EndOfStream | StreamError string | Waiting

text \<open>The pump and the handle; \<open>transformChunk\<close> and the model name are parameters.\<close>

definition step ::
  "('v \<Rightarrow> string \<Rightarrow> nat \<Rightarrow> 'c) \<Rightarrow> string \<Rightarrow> 'v event \<Rightarrow> 'c adapter \<Rightarrow> 'c adapter" where
  "step transformChunk model ev s =
     (case ev of
        UpstreamChunk chunk \<Rightarrow>
          if pump_running s then
            push (Some (transformChunk chunk model (pump_index s)))
              (s\<lparr>pump_index := Suc (pump_index s)\<rparr>)
          else s
      | UpstreamDone \<Rightarrow>
          if pump_running s then push None (s\<lparr>pump_running := False\<rparr>) else s
      | UpstreamThrows err \<Rightarrow>
          if pump_running s then emitError err (s\<lparr>pump_running := False\<rparr>) else s
      | Abort \<Rightarrow> push None s
      | ConsumerNext \<Rightarrow> s)"

text \<open>
  One step of the consumer's iteration. A finished iteration reports the end. Otherwise
  the listeners are attached; a destroyed stream gives its error; a buffered chunk is
  delivered, also after the end signal; on an empty buffer the error is raised if there is
  one, the iteration returns once the end has been signalled, and otherwise the consumer
  waits. Raising the error or returning finishes the iteration and destroys the stream.
\<close>

definition consumerNext :: "'c adapter \<Rightarrow> 'c observed \<times> 'c adapter" where
  "consumerNext s =
     (if it_finished s then (EndOfStream, s)
      else
        (let s1 = s\<lparr>it_listening := True\<rparr>;
             finished = s1\<lparr>it_finished := True, rs_destroyed := True\<rparr>
         in if rs_destroyed s1 then
              (case rs_error s1 of
                 Some err \<Rightarrow> (StreamError err, finished)
               | None \<Rightarrow> (EndOfStream, finished))
            else
              (case rs_buffer s1 of
                 c # cs \<Rightarrow> (Chunk c, s1\<lparr>rs_buffer := cs\<rparr>)
               | [] \<Rightarrow>
                   (case rs_error s1 of
                      Some err \<Rightarrow> (StreamError err, finished)
                    | None \<Rightarrow>
                        if rs_ended s1 then (EndOfStream, finished) else (Waiting, s1)))))"

definition createStreamAdapter :: "'c adapter" where
  "createStreamAdapter =
     \<lparr>rs_buffer = [], rs_ended = False, rs_error = None, rs_destroyed = False,
      it_listening = False, it_finished = False, unhandled = [],
      pump_index = 0, pump_running = True\<rparr>"

text \<open>What the consumer observes along a sequence of events, one entry for each of its steps.\<close>

fun observe ::
  "('v \<Rightarrow> string \<Rightarrow> nat \<Rightarrow> 'c) \<Rightarrow> string \<Rightarrow> 'v event list \<Rightarrow> 'c adapter \<Rightarrow>
   'c observed list" where
  "observe transformChunk model [] s = []"
| "observe transformChunk model (ConsumerNext # evs) s =
     (let (obs, s') = consumerNext s in obs # observe transformChunk model evs s')"
| "observe transformChunk model (ev # evs) s =
     observe transformChunk model evs (step transformChunk model ev s)"

definition indexed :: "string \<Rightarrow> string \<Rightarrow> nat \<Rightarrow> string \<times> nat" where
  "indexed chunk model index = (chunk, index)"

section \<open>Properties of the capability filter\<close>

lemma read_not_write: "isReadOnlyToolCall tc \<Longrightarrow> \<not> isWriteToolCall tc"
  by (auto simp: isReadOnlyToolCall_def isWriteToolCall_def READ_ONLY_TOOLS_def WRITE_TOOLS_def)

lemma filter_write_of_read [simp]: "filter isWriteToolCall (filter isReadOnlyToolCall tcs) = []"
  by (induction tcs) (auto dest: read_not_write)

lemma filter_no_tool_calls: "tool_calls item = None \<Longrightarrow> filterMessageForReadOnly item = item"
  by (simp add: filterMessageForReadOnly_def)

lemma filter_no_write:
  "tool_calls item = Some tcs \<Longrightarrow> filter isWriteToolCall tcs = [] \<Longrightarrow>
   filterMessageForReadOnly item = item"
  by (simp add: filterMessageForReadOnly_def)

lemma filter_not_assistant:
  "role item \<noteq> ''assistant'' \<Longrightarrow> filterMessageForReadOnly item = item"
  by (simp add: filterMessageForReadOnly_def split: option.splits)

lemma filter_mixed:
  "role item = ''assistant'' \<Longrightarrow> tool_calls item = Some tcs \<Longrightarrow>
   filter isWriteToolCall tcs \<noteq> [] \<Longrightarrow> filter isReadOnlyToolCall tcs \<noteq> [] \<Longrightarrow>
   filterMessageForReadOnly item =
     item\<lparr>tool_calls := Some (filter isReadOnlyToolCall tcs),
          content := Str ((case content item of Str s \<Rightarrow> s @ ''\<newline>\<newline>'' | _ \<Rightarrow> '''')
                          @ friendlyMessage (join '', '' (map fn_name (filter isWriteToolCall tcs))))\<rparr>"
  by (simp add: filterMessageForReadOnly_def Let_def)

lemma filter_write_only:
  "role item = ''assistant'' \<Longrightarrow> tool_calls item = Some tcs \<Longrightarrow>
   filter isWriteToolCall tcs \<noteq> [] \<Longrightarrow> filter isReadOnlyToolCall tcs = [] \<Longrightarrow>
   filterMessageForReadOnly item =
     item\<lparr>tool_calls := None,
          content := Str (friendlyMessage (join '', '' (map fn_name (filter isWriteToolCall tcs))))\<rparr>"
  by (simp add: filterMessageForReadOnly_def Let_def)

text \<open>
  C2. An assistant message with at least one read-capability and at least one
  write-capability tool call is rewritten so that its tool calls are exactly the
  read-capability calls, unchanged and in order; none of them is a write-capability call;
  and its content is the original text followed by a blank line (when the original content
  is a string) and the note, which holds the names of the stripped write-capability calls
  joined by a comma and a space.
\<close>

theorem filter_mixed_retains_reads_strips_writes:
  assumes "role item = ''assistant''" and "tool_calls item = Some tcs"
    and "\<exists>tc\<in>set tcs. isReadOnlyToolCall tc" and "\<exists>tc\<in>set tcs. isWriteToolCall tc"
  shows "tool_calls (filterMessageForReadOnly item) = Some (filter isReadOnlyToolCall tcs)
       \<and> (\<forall>tc\<in>set (filter isReadOnlyToolCall tcs). \<not> isWriteToolCall tc)
       \<and> content (filterMessageForReadOnly item) =
           Str ((case content item of Str s \<Rightarrow> s @ ''\<newline>\<newline>'' | _ \<Rightarrow> '''')
                @ noteHead @ join '', '' (map fn_name (filter isWriteToolCall tcs)) @ noteTail)
       \<and> role (filterMessageForReadOnly item) = role item
       \<and> tool_call_id (filterMessageForReadOnly item) = tool_call_id item"
proof -
  from assms(3) have r: "filter isReadOnlyToolCall tcs \<noteq> []"
    by (auto simp: filter_empty_conv)
  from assms(4) have w: "filter isWriteToolCall tcs \<noteq> []"
    by (auto simp: filter_empty_conv)
  show ?thesis
    by (simp add: filter_mixed [OF assms(1,2) w r] friendlyMessage_def read_not_write)
qed

text \<open>The message \<open>mixedExample\<close> calls Read, Bash, Lookup and Write.\<close>

theorem filter_mixed_witness:
  "role mixedExample = ''assistant''
   \<and> (\<exists>tc\<in>set (the (tool_calls mixedExample)). isReadOnlyToolCall tc)
   \<and> (\<exists>tc\<in>set (the (tool_calls mixedExample)). isWriteToolCall tc)
   \<and> map fn_name (the (tool_calls (filterMessageForReadOnly mixedExample))) = [''Read'']
   \<and> content (filterMessageForReadOnly mixedExample) =
       Str (''Working.\<newline>\<newline>'' @ noteHead @ ''Bash, Write'' @ noteTail)"
  using filter_mixed_retains_reads_strips_writes [of mixedExample "the (tool_calls mixedExample)"]
  by (simp add: mixedExample_def isReadOnlyToolCall_def isWriteToolCall_def
      READ_ONLY_TOOLS_def WRITE_TOOLS_def)

text \<open>
  C3, as amended. An assistant message whose tool calls are all write-capability calls (and
  that has at least one) loses its \<open>tool_calls\<close> field, and its content is replaced by the
  note alone: every other field is kept, the original text is not.
\<close>

theorem filter_write_only_replaces_content:
  assumes "role item = ''assistant''" and "tool_calls item = Some tcs"
    and "tcs \<noteq> []" and "\<forall>tc\<in>set tcs. isWriteToolCall tc"
  shows "filterMessageForReadOnly item =
           item\<lparr>tool_calls := None,
                content := Str (friendlyMessage (join '', '' (map fn_name tcs)))\<rparr>"
proof -
  from assms(4) have w: "filter isWriteToolCall tcs = tcs" by simp
  from assms(4) have r: "filter isReadOnlyToolCall tcs = []"
    by (auto simp: filter_empty_conv dest: read_not_write)
  from filter_write_only [OF assms(1,2) _ r] w assms(3) show ?thesis by simp
qed

theorem filter_write_only_witness:
  "role writeOnlyExample = ''assistant'' \<and> the (tool_calls writeOnlyExample) \<noteq> []
   \<and> list_all isWriteToolCall (the (tool_calls writeOnlyExample))
   \<and> tool_calls (filterMessageForReadOnly writeOnlyExample) = None
   \<and> content (filterMessageForReadOnly writeOnlyExample) = Str (friendlyMessage ''Edit'')"
  using filter_write_only_replaces_content [of writeOnlyExample "the (tool_calls writeOnlyExample)"]
  by (simp add: writeOnlyExample_def isWriteToolCall_def WRITE_TOOLS_def)

text \<open>
  C3 as stated fails: the message \<open>writeOnlyExample\<close> has the text "Editing now." and one
  Edit call; the filtered content is the note alone, which does not start with that text.
\<close>

theorem filter_write_only_drops_original_text:
  "role writeOnlyExample = ''assistant''
   \<and> list_all isWriteToolCall (the (tool_calls writeOnlyExample))
   \<and> content writeOnlyExample = Str ''Editing now.''
   \<and> content (filterMessageForReadOnly writeOnlyExample) = Str (friendlyMessage ''Edit'')
   \<and> \<not> spec_appended ''Editing now.'' (friendlyMessage ''Edit'') (friendlyMessage ''Edit'')"
  by (simp add: writeOnlyExample_def isWriteToolCall_def WRITE_TOOLS_def
      isReadOnlyToolCall_def READ_ONLY_TOOLS_def
      filterMessageForReadOnly_def spec_appended_def friendlyMessage_def noteHead_def)

text \<open>
  C8. Filtering twice is filtering once, and a message with no tool calls, be the field
  absent or an empty array, is returned as it is.
\<close>

theorem filter_idempotent:
  "filterMessageForReadOnly (filterMessageForReadOnly item) = filterMessageForReadOnly item
   \<and> (tool_calls item = None \<or> tool_calls item = Some [] \<longrightarrow>
        filterMessageForReadOnly item = item)"
proof -
  have "filterMessageForReadOnly (filterMessageForReadOnly item) = filterMessageForReadOnly item"
  proof (cases "tool_calls item")
    case None
    then show ?thesis by (simp add: filter_no_tool_calls)
  next
    case (Some tcs)
    show ?thesis
    proof (cases "role item = ''assistant'' \<and> filter isWriteToolCall tcs \<noteq> []")
      case False
      then have "filterMessageForReadOnly item = item"
        using Some filter_not_assistant [of item] filter_no_write [of item tcs] by auto
      then show ?thesis by simp
    next
      case True
      show ?thesis
      proof (cases "filter isReadOnlyToolCall tcs = []")
        case True
        with \<open>role item = ''assistant'' \<and> filter isWriteToolCall tcs \<noteq> []\<close> Some
        show ?thesis by (simp add: filter_write_only filter_no_tool_calls)
      next
        case False
        with \<open>role item = ''assistant'' \<and> filter isWriteToolCall tcs \<noteq> []\<close> Some
        show ?thesis
          by (simp add: filter_mixed)
            (rule filter_no_write [where tcs = "filter isReadOnlyToolCall tcs"],
              auto simp: filter_empty_conv dest: read_not_write)
      qed
    qed
  qed
  moreover have "tool_calls item = Some [] \<Longrightarrow> filterMessageForReadOnly item = item"
    by (rule filter_no_write [where tcs = "[]"]) simp_all
  ultimately show ?thesis by (auto simp: filter_no_tool_calls)
qed

theorem filter_idempotent_witness:
  "tool_calls (filterMessageForReadOnly writeOnlyExample) = None
   \<and> filterMessageForReadOnly (filterMessageForReadOnly writeOnlyExample)
       = filterMessageForReadOnly writeOnlyExample
   \<and> filterMessageForReadOnly (filterMessageForReadOnly mixedExample)
       = filterMessageForReadOnly mixedExample
   \<and> tool_calls (mixedExample\<lparr>tool_calls := Some []\<rparr>) = Some []
   \<and> filterMessageForReadOnly (mixedExample\<lparr>tool_calls := Some []\<rparr>)
       = mixedExample\<lparr>tool_calls := Some []\<rparr>"
  using filter_idempotent [of writeOnlyExample] filter_idempotent [of mixedExample]
    filter_idempotent [of "filterMessageForReadOnly writeOnlyExample"]
    filter_idempotent [of "mixedExample\<lparr>tool_calls := Some []\<rparr>"]
  by (simp add: writeOnlyExample_def filterMessageForReadOnly_def isWriteToolCall_def
      isReadOnlyToolCall_def READ_ONLY_TOOLS_def WRITE_TOOLS_def)

text \<open>
  C10. When an assistant message holds a write-capability call, the tool calls of the
  result are the read-capability calls alone (the field is cleared when there is none), so
  a call that is neither read- nor write-capability is not among them; the same message
  with tool calls none of which is write-capability is returned as it is.
\<close>

theorem filter_drops_unclassified_beside_write:
  assumes "role item = ''assistant''" and "tool_calls item = Some tcs"
    and "\<exists>tc\<in>set tcs. isWriteToolCall tc"
  shows "tool_calls (filterMessageForReadOnly item) =
           (if filter isReadOnlyToolCall tcs = [] then None
            else Some (filter isReadOnlyToolCall tcs))
       \<and> (\<forall>tc kept. \<not> isReadOnlyToolCall tc \<and> \<not> isWriteToolCall tc
             \<and> tool_calls (filterMessageForReadOnly item) = Some kept \<longrightarrow> tc \<notin> set kept)
       \<and> (\<forall>others. (\<forall>tc\<in>set others. \<not> isWriteToolCall tc) \<longrightarrow>
             filterMessageForReadOnly (item\<lparr>tool_calls := Some others\<rparr>)
               = item\<lparr>tool_calls := Some others\<rparr>)"
proof -
  from assms(3) have w: "filter isWriteToolCall tcs \<noteq> []"
    by (auto simp: filter_empty_conv)
  have a: "tool_calls (filterMessageForReadOnly item) =
           (if filter isReadOnlyToolCall tcs = [] then None
            else Some (filter isReadOnlyToolCall tcs))"
    using filter_write_only [OF assms(1,2) w] filter_mixed [OF assms(1,2) w] by simp
  have b: "\<forall>tc kept. \<not> isReadOnlyToolCall tc \<and> \<not> isWriteToolCall tc
             \<and> tool_calls (filterMessageForReadOnly item) = Some kept \<longrightarrow> tc \<notin> set kept"
    using a by (auto split: if_splits)
  have c: "\<forall>others. (\<forall>tc\<in>set others. \<not> isWriteToolCall tc) \<longrightarrow>
             filterMessageForReadOnly (item\<lparr>tool_calls := Some others\<rparr>)
               = item\<lparr>tool_calls := Some others\<rparr>"
  proof (intro allI impI)
    fix others assume "\<forall>tc\<in>set others. \<not> isWriteToolCall tc"
    then have "filter isWriteToolCall others = []" by (simp add: filter_empty_conv)
    then show "filterMessageForReadOnly (item\<lparr>tool_calls := Some others\<rparr>)
               = item\<lparr>tool_calls := Some others\<rparr>"
      by (intro filter_no_write [where tcs = others]) simp_all
  qed
  from a b c show ?thesis by blast
qed

theorem filter_drops_unclassified_witness:
  "role mixedExample = ''assistant''
   \<and> (\<exists>tc\<in>set (the (tool_calls mixedExample)). isWriteToolCall tc)
   \<and> map fn_name (the (tool_calls mixedExample)) = [''Read'', ''Bash'', ''Lookup'', ''Write'']
   \<and> map fn_name (the (tool_calls (filterMessageForReadOnly mixedExample))) = [''Read'']
   \<and> filterMessageForReadOnly (mixedExample\<lparr>tool_calls := Some (take 1 (drop 2 (the (tool_calls mixedExample))))\<rparr>)
       = mixedExample\<lparr>tool_calls := Some (take 1 (drop 2 (the (tool_calls mixedExample))))\<rparr>"
  using filter_drops_unclassified_beside_write [of mixedExample "the (tool_calls mixedExample)"]
  by (simp add: mixedExample_def isReadOnlyToolCall_def isWriteToolCall_def
      READ_ONLY_TOOLS_def WRITE_TOOLS_def)

section \<open>Properties of the content flattening\<close>

lemma join_append:
  "xs \<noteq> [] \<Longrightarrow> ys \<noteq> [] \<Longrightarrow> join sep (xs @ ys) = join sep xs @ sep @ join sep ys"
  by (induction sep xs rule: join.induct) (auto simp: neq_Nil_conv)

lemma join_empty_middle:
  "xs \<noteq> [] \<Longrightarrow> ys \<noteq> [] \<Longrightarrow>
   join sep (xs @ [''''] @ ys) = join sep xs @ sep @ sep @ join sep ys"
  using join_append [of xs "[''''] @ ys" sep] join_append [of "['''']" ys sep] by simp

lemma join_space_singleSpaced: "join '' '' xs = singleSpaced xs"
  by (induction xs rule: singleSpaced.induct) simp_all

lemma elemValue_partText:
  "(case elemValue p of None \<Rightarrow> '''' | Some s \<Rightarrow> s) = partText p"
  by (cases p rule: partText.cases) simp_all

lemma flattenContent_singleSpaced:
  "flattenContent (ContentArray parts) = singleSpaced (map partText parts)"
  by (simp add: flattenContent_def joinValues_def join_space_singleSpaced comp_def
      elemValue_partText)

text \<open>
  C7 as stated fails: for a text part "a", an image part and a text part "b" the adapter
  produces "a", two spaces, "b"; the texts of the text parts separated by one space are
  "a b".
\<close>

theorem flatten_counterexample:
  "flattenContent (ContentArray imageBetweenTexts) = ''a  b''
   \<and> spec_flatten imageBetweenTexts = ''a b''
   \<and> flattenContent (ContentArray imageBetweenTexts) \<noteq> spec_flatten imageBetweenTexts"
  by (simp add: flattenContent_def spec_flatten_def joinValues_def imageBetweenTexts_def)

text \<open>
  C7, as amended. For every array of parts the flattening is one string per part, in
  order, with exactly one space between every two consecutive parts, where a text part
  gives its text and any other part the empty string: the empty array gives the empty
  string, a single part gives its string, and a part followed by others gives its string,
  one space and the flattening of the others. So a content made of text parts only is
  flattened to their texts separated by one space, and a non-text part between two
  non-empty runs of parts leaves two consecutive spaces between their flattenings.
\<close>

theorem flatten_text_parts:
  "flattenContent (ContentArray parts) = singleSpaced (map partText parts)
   \<and> flattenContent (ContentArray []) = ''''
   \<and> flattenContent (ContentArray [p]) = partText p
   \<and> flattenContent (ContentArray (p # q # rest))
       = partText p @ '' '' @ flattenContent (ContentArray (q # rest))
   \<and> (list_all isTextElem parts \<longrightarrow> flattenContent (ContentArray parts) = spec_flatten parts)
   \<and> (t \<noteq> ''text'' \<and> before \<noteq> [] \<and> after \<noteq> [] \<longrightarrow>
        flattenContent (ContentArray (before @ [ElemPart t txt] @ after)) =
          flattenContent (ContentArray before) @ ''  '' @ flattenContent (ContentArray after))"
proof -
  have a: "list_all isTextElem parts \<Longrightarrow> filter isTextElem parts = parts"
    by (simp add: list_all_iff)
  have b: "t \<noteq> ''text'' \<Longrightarrow> before \<noteq> [] \<Longrightarrow> after \<noteq> [] \<Longrightarrow>
        flattenContent (ContentArray (before @ [ElemPart t txt] @ after)) =
          flattenContent (ContentArray before) @ ''  '' @ flattenContent (ContentArray after)"
    using join_empty_middle [of "map (\<lambda>v. case v of None \<Rightarrow> '''' | Some s \<Rightarrow> s) (map elemValue before)"
        "map (\<lambda>v. case v of None \<Rightarrow> '''' | Some s \<Rightarrow> s) (map elemValue after)" "'' ''"]
    by (simp add: flattenContent_def joinValues_def)
  show ?thesis using a b by (simp add: flattenContent_singleSpaced spec_flatten_def)
qed

theorem flatten_text_parts_witness:
  "list_all isTextElem [ElemPart ''text'' (Some ''a''), ElemPart ''text'' (Some ''b'')]
   \<and> flattenContent (ContentArray [ElemPart ''text'' (Some ''a''), ElemPart ''text'' (Some ''b'')]) = ''a b''
   \<and> flattenContent (ContentArray ([ElemPart ''text'' (Some ''a'')] @ [ElemPart ''image_url'' None]
        @ [ElemPart ''text'' (Some ''b'')])) = ''a  b''
   \<and> flattenContent (ContentArray [ElemPart ''image_url'' None, ElemPart ''text'' (Some ''a'')]) = '' a''
   \<and> flattenContent (ContentArray [ElemPart ''image_url'' None]) = ''''"
  using flatten_text_parts [of "[ElemPart ''text'' (Some ''a''), ElemPart ''text'' (Some ''b'')]"
      "ElemPart ''image_url'' None" "ElemPart ''text'' (Some ''a'')" "[]"
      "''image_url''" "[ElemPart ''text'' (Some ''a'')]" "[ElemPart ''text'' (Some ''b'')]" None]
  by (simp add: spec_flatten_def flattenContent_def joinValues_def)

section \<open>Properties of the model availability check\<close>

lemma trim_Nil [simp]: "trim [] = []"
  by (simp add: trim_def)

text \<open>
  C6 as stated fails: the id made of one space is not the empty string and not
  allow-listed, the resolved list is non-empty and does not contain it, and the check
  returns true; so does the check of " gpt-4" against a list that holds "gpt-4" only.
\<close>

theorem isModelSupported_counterexample:
  "'' '' \<noteq> '''' \<and> '' '' \<notin> set RECOMMENDED_MODELS \<and> [''gpt-4''] \<noteq> []
   \<and> '' '' \<notin> set [''gpt-4'']
   \<and> isModelSupported (Some '' '') (CacheFirst [''gpt-4'']) = True
   \<and> '' gpt-4'' \<notin> set RECOMMENDED_MODELS \<and> '' gpt-4'' \<notin> set [''gpt-4'']
   \<and> isModelSupported (Some '' gpt-4'') (CacheFirst [''gpt-4'']) = True"
  by (simp add: isModelSupported_def RECOMMENDED_MODELS_def trim_def isWhiteSpace_def
      raceModels_def)

text \<open>
  C6, as amended. The check returns true for an absent id, for the empty string and every
  other id that is empty once trimmed, and for an allow-listed id such as "o3", whatever
  the outcome of the race. For an id outside the allow-list that is not empty once trimmed,
  against a list that resolved first and is non-empty, it returns whether the trimmed id is
  in the list; when the timer settles first it returns true.
\<close>

theorem isModelSupported_cases:
  "(model = None \<or> model = Some ''''
      \<or> (\<exists>m. model = Some m \<and> (trim m = '''' \<or> m \<in> set RECOMMENDED_MODELS))
      \<longrightarrow> isModelSupported model race)
   \<and> isModelSupported (Some ''o3'') race
   \<and> (trim m = '''' \<longrightarrow> isModelSupported (Some m) race)
   \<and> (trim m \<noteq> '''' \<and> m \<notin> set RECOMMENDED_MODELS \<and> models \<noteq> [] \<longrightarrow>
        isModelSupported (Some m) (CacheFirst models) = (trim m \<in> set models))
   \<and> isModelSupported (Some m) TimeoutFirst"
  by (auto simp: isModelSupported_def raceModels_def RECOMMENDED_MODELS_def)

theorem isModelSupported_cases_witness:
  "isModelSupported (Some '''') (CacheFirst [''gpt-4''])
   \<and> isModelSupported (Some ''o4-mini'') (CacheFirst [''gpt-4''])
   \<and> trim [CHR 0x09, CHR 0x0A] = ''''
   \<and> isModelSupported (Some [CHR 0x09, CHR 0x0A]) (CacheFirst [''gpt-4''])
   \<and> trim ''nonexistent-model-xyz'' \<noteq> '''' \<and> ''nonexistent-model-xyz'' \<notin> set RECOMMENDED_MODELS
   \<and> \<not> isModelSupported (Some ''nonexistent-model-xyz'') (CacheFirst [''gpt-4''])
   \<and> isModelSupported (Some ''nonexistent-model-xyz'') TimeoutFirst"
  using isModelSupported_cases [of "Some ''''" "CacheFirst [''gpt-4'']" "''nonexistent-model-xyz''" "[''gpt-4'']"]
    isModelSupported_cases [of "Some ''o4-mini''" "CacheFirst [''gpt-4'']" "[CHR 0x09, CHR 0x0A]" "[''gpt-4'']"]
  by (simp add: RECOMMENDED_MODELS_def trim_def isWhiteSpace_def)

section \<open>Properties of the input item\<close>

lemma readImages_ok:
  "list_all (\<lambda>p. \<not> isl (readFile p)) images \<Longrightarrow>
   \<not> isl (readImages readFile ft b64 acc images)"
  by (induction images arbitrary: acc) (auto simp: Let_def split: sum.splits)

lemma readImages_fail:
  "\<not> list_all (\<lambda>p. \<not> isl (readFile p)) images \<Longrightarrow>
   isl (readImages readFile ft b64 acc images)"
  by (induction images arbitrary: acc) (auto simp: Let_def split: sum.splits)

lemma readImages_first_error:
  "list_all (\<lambda>p. \<not> isl (readFile p)) readable \<Longrightarrow> readFile failing = Inl err \<Longrightarrow>
   readImages readFile ft b64 acc (readable @ failing # rest) = Inl (ErrorObject err)"
  by (induction readable arbitrary: acc) (auto simp: Let_def split: sum.splits)

text \<open>
  C9 as stated fails: with an image path that cannot be read the call fails with the read
  error and returns no message, while the same call without image paths returns the
  message.
\<close>

theorem createInputItem_counterexample:
  "createInputItem noFiles (\<lambda>b. None) (\<lambda>b. b) ''hi'' [] = Inr (userText ''hi'')
   \<and> createInputItem noFiles (\<lambda>b. None) (\<lambda>b. b) ''hi'' [''missing.png'']
       = Inl (ErrorObject (''ENOENT: no such file or directory, open ''
                            @ [CHR 0x27] @ ''missing.png'' @ [CHR 0x27]))
   \<and> createInputItem noFiles (\<lambda>b. None) (\<lambda>b. b) ''hi'' [''missing.png'']
       \<noteq> createInputItem noFiles (\<lambda>b. None) (\<lambda>b. b) ''hi'' []"
  by (simp add: createInputItem_def noFiles_def userText_def)

text \<open>
  C9, as amended. When every image path can be read, the result is the user message whose
  content is the single text part holding the prompt, the same as for no image paths: the
  image parts built by the loop are not attached. When some path cannot be read, the call
  fails, and it fails with the error of the first read that fails: the error object
  carrying that read's message.
\<close>

theorem createInputItem_text_only:
  "(list_all (\<lambda>p. \<not> isl (readFile p)) images \<longrightarrow>
      createInputItem readFile fileTypeFromBuffer toBase64 text images = Inr (userText text)
      \<and> createInputItem readFile fileTypeFromBuffer toBase64 text images
          = createInputItem readFile fileTypeFromBuffer toBase64 text [])
   \<and> (\<not> list_all (\<lambda>p. \<not> isl (readFile p)) images \<longrightarrow>
        isl (createInputItem readFile fileTypeFromBuffer toBase64 text images))
   \<and> (list_all (\<lambda>p. \<not> isl (readFile p)) readable \<and> readFile failing = Inl err \<longrightarrow>
        createInputItem readFile fileTypeFromBuffer toBase64 text (readable @ failing # rest)
          = Inl (ErrorObject err))"
proof -
  have c: "list_all (\<lambda>p. \<not> isl (readFile p)) readable \<and> readFile failing = Inl err \<longrightarrow>
        createInputItem readFile fileTypeFromBuffer toBase64 text (readable @ failing # rest)
          = Inl (ErrorObject err)"
    by (simp add: createInputItem_def readImages_first_error)
  show ?thesis
  proof (cases "list_all (\<lambda>p. \<not> isl (readFile p)) images")
    case True
    from readImages_ok [OF True, of fileTypeFromBuffer toBase64 "[TextPart text]"]
    obtain parts where "readImages readFile fileTypeFromBuffer toBase64 [TextPart text] images
        = Inr parts"
      by (cases "readImages readFile fileTypeFromBuffer toBase64 [TextPart text] images") auto
    with True c show ?thesis by (simp add: createInputItem_def userText_def)
  next
    case False
    from readImages_fail [OF False, of fileTypeFromBuffer toBase64 "[TextPart text]"]
    obtain e where "readImages readFile fileTypeFromBuffer toBase64 [TextPart text] images
        = Inl e"
      by (cases "readImages readFile fileTypeFromBuffer toBase64 [TextPart text] images") auto
    with False c show ?thesis by (simp add: createInputItem_def)
  qed
qed

theorem createInputItem_text_only_witness:
  "list_all (\<lambda>p. \<not> isl (oneFile p)) [''a.png'']
   \<and> createInputItem oneFile (\<lambda>b. None) (\<lambda>b. b) ''hi'' [''a.png''] = Inr (userText ''hi'')
   \<and> \<not> list_all (\<lambda>p. \<not> isl (oneFile p)) [''a.png'', ''b.png'']
   \<and> isl (createInputItem oneFile (\<lambda>b. None) (\<lambda>b. b) ''hi'' [''a.png'', ''b.png''])
   \<and> oneFile ''b.png'' = Inl (''ENOENT: no such file or directory, open ''
                            @ [CHR 0x27] @ ''b.png'' @ [CHR 0x27])
   \<and> createInputItem oneFile (\<lambda>b. None) (\<lambda>b. b) ''hi'' ([''a.png''] @ ''b.png'' # [''c.png''])
       = Inl (ErrorObject (''ENOENT: no such file or directory, open ''
                            @ [CHR 0x27] @ ''b.png'' @ [CHR 0x27]))"
  using createInputItem_text_only [of oneFile "[''a.png'']" "\<lambda>b. None" "\<lambda>b. b" "''hi''"
      "[''a.png'']" "''b.png''"
      "''ENOENT: no such file or directory, open '' @ [CHR 0x27] @ ''b.png'' @ [CHR 0x27]"
      "[''c.png'']"]
   createInputItem_text_only [of oneFile "[''a.png'', ''b.png'']" "\<lambda>b. None" "\<lambda>b. b" "''hi''"
      "[''a.png'']" "''b.png''"
      "''ENOENT: no such file or directory, open '' @ [CHR 0x27] @ ''b.png'' @ [CHR 0x27]"
      "[''c.png'']"]
  by (simp add: oneFile_def noFiles_def)

section \<open>Properties of the session gateway\<close>


lemma handleChatRequest_sessionId:
  "resp_sessionId (fst (handleChatRequest e config chatRequest st)) = resolveSessionId e chatRequest"
  by (simp add: handleChatRequest_def Let_def split: prod.splits)

lemma runAgent_registry:
  "activeSessions (snd (runAgent e sid a items st)) =
     (activeSessions st)(sid \<mapsto> a\<lparr>agent_inputs := agent_inputs a @ items\<rparr>)"
  by (simp add: runAgent_def Let_def split: prod.splits)

lemma handleChatRequest_new_registry:
  assumes "activeSessions st (resolveSessionId e chatRequest) = None"
  shows "\<exists>inputs. activeSessions (snd (handleChatRequest e config chatRequest st)) =
     (activeSessions st)(resolveSessionId e chatRequest \<mapsto>
        \<lparr>agent_model = cfg_model config, agent_instructions = readOnlyInstructions config,
         agent_approvalPolicy = SUGGEST, agent_sink = nextArray st,
         agent_confirmation = NO_CONTINUE, agent_inputs = inputs\<rparr>)"
proof (cases "createInputItem (env_readFile e) (env_fileTypeFromBuffer e) (env_toBase64 e)
                    (prompt chatRequest)
                    (case imagePaths chatRequest of Some ps \<Rightarrow> ps | None \<Rightarrow> [])")
  case (Inl err)
  with assms show ?thesis
    by (auto simp: handleChatRequest_def Let_def split: prod.splits)
next
  case (Inr inputItem)
  with assms show ?thesis
    by (auto simp: handleChatRequest_def Let_def runAgent_def split: prod.splits)
qed

text \<open>
  C4, as amended. The identifier of a request is the caller's \<open>sessionId\<close> when it is
  present and not empty, and the minted one otherwise. When no session is registered under
  it, the gateway returns that identifier in the response and registers under it a new
  agent bound to the suggest policy, with the denying command confirmation and with the
  request's message array as its sink; every other entry of the registry is unchanged.
\<close>

theorem new_session_registered_under_resolved_id:
  assumes "activeSessions st (resolveSessionId e chatRequest) = None"
  shows "resp_sessionId (fst (handleChatRequest e config chatRequest st))
           = resolveSessionId e chatRequest
       \<and> (\<exists>a. activeSessions (snd (handleChatRequest e config chatRequest st))
                 (resolveSessionId e chatRequest) = Some a
              \<and> agent_approvalPolicy a = SUGGEST \<and> agent_confirmation a = NO_CONTINUE
              \<and> agent_sink a = nextArray st)
       \<and> (\<forall>other. other \<noteq> resolveSessionId e chatRequest \<longrightarrow>
             activeSessions (snd (handleChatRequest e config chatRequest st)) other
               = activeSessions st other)
       \<and> resolveSessionId e chatRequest =
           (if sessionId chatRequest = None \<or> sessionId chatRequest = Some ''''
            then env_randomUUID e else the (sessionId chatRequest))"
proof -
  from handleChatRequest_new_registry [OF assms, of config]
  obtain inputs where r: "activeSessions (snd (handleChatRequest e config chatRequest st)) =
     (activeSessions st)(resolveSessionId e chatRequest \<mapsto>
        \<lparr>agent_model = cfg_model config, agent_instructions = readOnlyInstructions config,
         agent_approvalPolicy = SUGGEST, agent_sink = nextArray st,
         agent_confirmation = NO_CONTINUE, agent_inputs = inputs\<rparr>)" by blast
  have "resolveSessionId e chatRequest =
           (if sessionId chatRequest = None \<or> sessionId chatRequest = Some ''''
            then env_randomUUID e else the (sessionId chatRequest))"
    by (auto simp: resolveSessionId_def split: option.splits)
  with r show ?thesis by (simp add: handleChatRequest_sessionId)
qed

text \<open>
  C4 as stated fails: a request that names the unknown session "abc" is answered with
  "abc", and its agent is registered under "abc"; nothing is registered under the minted
  identifier.
\<close>

theorem unknown_id_is_kept:
  "activeSessions emptyServer ''abc'' = None
   \<and> resp_sessionId (fst (handleChatRequest exampleEnv exampleConfig (requestWithId ''abc'')
        emptyServer)) = ''abc''
   \<and> env_randomUUID exampleEnv \<noteq> ''abc''
   \<and> activeSessions (snd (handleChatRequest exampleEnv exampleConfig (requestWithId ''abc'')
        emptyServer)) ''abc'' \<noteq> None
   \<and> activeSessions (snd (handleChatRequest exampleEnv exampleConfig (requestWithId ''abc'')
        emptyServer)) (env_randomUUID exampleEnv) = None"
  by (simp add: handleChatRequest_def Let_def runAgent_def emptyServer_def exampleEnv_def
      requestWithId_def resolveSessionId_def createInputItem_def split: prod.splits)

text \<open>A request without a session id, whose approval mode asks for full-auto.\<close>

theorem new_session_witness:
  "activeSessions emptyServer (resolveSessionId exampleEnv
       \<lparr>prompt = ''hi'', imagePaths = None, approvalMode = Some ''full-auto'', sessionId = None\<rparr>) = None
   \<and> resp_sessionId (fst (handleChatRequest exampleEnv exampleConfig
       \<lparr>prompt = ''hi'', imagePaths = None, approvalMode = Some ''full-auto'', sessionId = None\<rparr>
       emptyServer)) = ''uuid-1''
   \<and> map_option agent_approvalPolicy (activeSessions (snd (handleChatRequest exampleEnv exampleConfig
       \<lparr>prompt = ''hi'', imagePaths = None, approvalMode = Some ''full-auto'', sessionId = None\<rparr>
       emptyServer)) ''uuid-1'') = Some SUGGEST"
  using new_session_registered_under_resolved_id [of emptyServer exampleEnv
      "\<lparr>prompt = ''hi'', imagePaths = None, approvalMode = Some ''full-auto'', sessionId = None\<rparr>"
      exampleConfig]
  by (auto simp: emptyServer_def exampleEnv_def resolveSessionId_def)


text \<open>
  The response of the request that creates the session holds the filtered items of the
  turn; a request that reuses a session gets none, since the agent's sink still pushes
  onto the array of the request that created it.
\<close>

lemma new_session_collects_emitted:
  assumes "activeSessions st (resolveSessionId e chatRequest) = None"
    and "createInputItem (env_readFile e) (env_fileTypeFromBuffer e) (env_toBase64 e)
           (prompt chatRequest)
           (case imagePaths chatRequest of Some ps \<Rightarrow> ps | None \<Rightarrow> []) = Inr inputItem"
    and "env_agentTurn e [] [inputItem] = (emitted, failure)"
  shows "fst (handleChatRequest e config chatRequest st) =
           \<lparr>resp_sessionId = resolveSessionId e chatRequest,
            resp_messages = map filterMessageForReadOnly emitted,
            resp_status = (if failure \<noteq> None then ''error'' else ''completed''),
            resp_error = (case failure of
                            None \<Rightarrow> None
                          | Some (ErrorObject msg) \<Rightarrow> Some msg
                          | Some OtherValue \<Rightarrow> Some ''Unknown error'')\<rparr>"
  using assms
  by (auto simp: handleChatRequest_def Let_def runAgent_def split: prod.splits thrown.splits)

lemma reused_session_collects_nothing:
  assumes "activeSessions st (resolveSessionId e chatRequest) = Some a"
    and "agent_sink a \<noteq> nextArray st"
  shows "resp_messages (fst (handleChatRequest e config chatRequest st)) = []"
  using assms
  by (auto simp: handleChatRequest_def Let_def runAgent_def split: prod.splits sum.splits)

text \<open>
  C5. A turn that fails is reported with the status "error", the error's message and the
  filtered messages emitted before the failure, and the session stays registered. On a
  second request for the session "abc", whose turn emits one message and then throws
  "boom", the status, the error string and the registry are as described, but the response
  holds no message: the filtered message is appended to the array of the first request.
\<close>

theorem reused_session_failure_returns_no_messages:
  "(let (r1, st1) = handleChatRequest exampleEnv exampleConfig (requestWithId ''abc'') emptyServer;
        (r2, st2) = handleChatRequest exampleEnv exampleConfig (requestWithId ''abc'') st1
    in r1 = \<lparr>resp_sessionId = ''abc'', resp_messages = [greeting],
              resp_status = ''completed'', resp_error = None\<rparr>
     \<and> env_agentTurn exampleEnv [userText ''hi''] [userText ''hi'']
          = ([mixedExample], Some (ErrorObject ''boom''))
     \<and> r2 = \<lparr>resp_sessionId = ''abc'', resp_messages = [],
              resp_status = ''error'', resp_error = Some ''boom''\<rparr>
     \<and> arrays st2 0 = [greeting, filterMessageForReadOnly mixedExample]
     \<and> map_option agent_inputs (activeSessions st2 ''abc'')
          = Some [userText ''hi'', userText ''hi''])"
  by (simp add: handleChatRequest_def Let_def runAgent_def emptyServer_def exampleEnv_def
      requestWithId_def resolveSessionId_def createInputItem_def userText_def
      filter_no_tool_calls greeting_def split: prod.splits)

section \<open>Properties of the stream adapter\<close>

text \<open>
  The handle signals the end and leaves the buffer alone, so a chunk buffered before the
  abort is the next thing the consumer gets; and the pump, still running, pushes its next
  chunk onto a stream that has ended.
\<close>

lemma abort_keeps_buffer:
  "rs_buffer (step transformChunk model Abort s) = rs_buffer s"
  by (simp add: step_def push_def)

lemma buffered_chunk_delivered_after_abort:
  "\<not> it_finished s \<Longrightarrow> \<not> rs_destroyed s \<Longrightarrow> rs_buffer s = c # cs \<Longrightarrow>
   fst (consumerNext (step transformChunk model Abort s)) = Chunk c"
  by (simp add: step_def push_def consumerNext_def Let_def)

lemma push_after_abort_is_an_error:
  "\<not> it_finished s \<Longrightarrow> \<not> rs_destroyed s \<Longrightarrow> pump_running s \<Longrightarrow>
   fst (consumerNext (step transformChunk model (UpstreamChunk v)
          (step transformChunk model Abort s)))
     = StreamError ''stream.push() after EOF''"
  by (simp add: step_def push_def consumerNext_def Let_def)

lemma upstream_failure_before_first_read_is_not_delivered:
  "observe transformChunk model [UpstreamThrows err, ConsumerNext] createStreamAdapter
     = [Waiting]"
  by (simp add: createStreamAdapter_def step_def emitError_def consumerNext_def Let_def)

lemma error_is_raised_once:
  "observe transformChunk model [ConsumerNext, UpstreamThrows err, ConsumerNext, ConsumerNext]
     createStreamAdapter
     = [Waiting, StreamError err, EndOfStream]"
  by (simp add: createStreamAdapter_def step_def emitError_def consumerNext_def Let_def)

text \<open>
  C1. After the cancellation handle is invoked the consumer is to observe no further chunk
  and a clean end. With two chunks pushed before the consumer's first step, the step after
  the abort still delivers the second chunk; and a chunk that the pump pushes after the
  abort, before the consumer's next step, turns the end of the stream into an error.
\<close>

theorem abort_delivers_buffered_chunk_and_later_push_fails:
  "observe indexed ''gemini'' [UpstreamChunk ''a'', UpstreamChunk ''b'', ConsumerNext, Abort,
      ConsumerNext, ConsumerNext] createStreamAdapter
     = [Chunk (''a'', 0), Chunk (''b'', 1), EndOfStream]
   \<and> observe indexed ''gemini'' [UpstreamChunk ''a'', ConsumerNext, Abort, UpstreamChunk ''b'',
      ConsumerNext] createStreamAdapter
     = [Chunk (''a'', 0), StreamError ''stream.push() after EOF'']"
  by (simp add: createStreamAdapter_def step_def push_def consumerNext_def indexed_def Let_def)

end
